theory Spec2Isabelle
  imports Complex_Main
begin

section \<open>JavaScript values, HTTP responses and thrown errors\<close>

text \<open>
  The web client is TypeScript running on the JavaScript runtime. A JavaScript
  \<^verbatim>\<open>number\<close> is modelled as a real: the code below only passes numbers on and
  tests them for being zero, it never computes with them.
\<close>

type_synonym number = real

text \<open>
  A field of a parsed JSON body whose truthiness the code tests
  (\<^verbatim>\<open>Boolean(x)\<close>, \<^verbatim>\<open>x || d\<close>, \<^verbatim>\<open>x && y\<close>). A field that is
  absent reads as \<^verbatim>\<open>undefined\<close>.
\<close>

datatype jsval = JUndefined | JNull | JBool bool | JNum number | JStr string | JObject

fun truthy :: "jsval \<Rightarrow> bool" where
  "truthy JUndefined = False"
| "truthy JNull = False"
| "truthy (JBool b) = b"
| "truthy (JNum x) = (x \<noteq> 0)"
| "truthy (JStr s) = (s \<noteq> [])"
| "truthy JObject = True"

text \<open>
  What \<^verbatim>\<open>fetch\<close> resolves to: the status code, the body as text
  (\<^verbatim>\<open>res.text()\<close>) and the body parsed as JSON (\<^verbatim>\<open>res.json()\<close>), which
  is \<open>None\<close> when parsing throws. \<^verbatim>\<open>res.ok\<close> is true for a status in 200..299.
\<close>

record 'a http_response =
  status :: nat
  text_body :: string
  json :: "'a option"

definition ok :: "'a http_response \<Rightarrow> bool" where
  "ok res = (200 \<le> status res \<and> status res \<le> 299)"

text \<open>
  The promise returned by \<^verbatim>\<open>fetch\<close> either rejects (the request never
  completed: a transport failure, with the message of the error thrown) or
  resolves with a response, whatever its status.
\<close>

datatype 'a fetch_result = Rejects string | Resolves "'a http_response"

text \<open>An \<^verbatim>\<open>Error\<close> object, reduced to its \<^verbatim>\<open>message\<close>.\<close>

datatype js_error = JsError string

fun message :: "js_error \<Rightarrow> string" where
  "message (JsError m) = m"

text \<open>Decimal rendering of a status code inside a template literal.\<close>

definition digit_char :: "nat \<Rightarrow> char" where
  "digit_char d = ''0123456789'' ! (d mod 10)"

function show_nat :: "nat \<Rightarrow> string" where
  "show_nat n = (if n < 10 then [digit_char n] else show_nat (n div 10) @ [digit_char n])"
  by pat_completeness auto
termination
  by (relation "measure id") auto

declare show_nat.simps [simp del]

section \<open>The API client (utils/api.ts)\<close>

datatype SearchMode = Local | Hybrid

record SearchResult =
  doc_id :: "string option"
  url :: string
  title :: string
  snippet :: string
  distance :: "number option"
  basin_distance :: "number option"
  hybrid_score :: "number option"
  serper_position :: "number option"

text \<open>
  The JSON body of a search response. Optional fields are \<open>None\<close> when absent;
  \<open>cache_hit\<close> is kept as a raw value because the caller coerces it with
  \<^verbatim>\<open>Boolean\<close>, and \<open>res_results\<close> is optional because the caller guards it
  with \<^verbatim>\<open>|| []\<close>.
\<close>

record SearchResponse =
  res_query :: string
  res_count :: number
  cache_hit :: jsval
  res_mode :: "SearchMode option"
  res_alpha :: "number option"
  res_results :: "SearchResult list option"

text \<open>The JSON bodies the client sends, and the requests carrying them.\<close>

datatype request_body =
    SearchBody string number
  | HybridBody string number number bool
  | NoBody

record http_request =
  path :: string
  http_method :: string
  with_credentials :: bool
  body :: request_body

text \<open>
  \<^verbatim>\<open>qsearchSearch(query, limit)\<close>: the request it sends, and what the awaited
  call evaluates to once \<^verbatim>\<open>fetch\<close> has settled. A rejected fetch and a body
  that does not parse propagate as thrown errors; a non-ok status throws the
  API error; otherwise the parsed body is returned with \<^verbatim>\<open>mode: "local"\<close>
  spread over it.
\<close>

definition qsearchSearch_request :: "string \<Rightarrow> number \<Rightarrow> http_request" where
  "qsearchSearch_request q l =
     \<lparr>path = ''/search'', http_method = ''POST'', with_credentials = False,
      body = SearchBody q l\<rparr>"

definition qsearchSearch_result :: "SearchResponse fetch_result \<Rightarrow> js_error + SearchResponse" where
  "qsearchSearch_result fr =
     (case fr of
        Rejects m \<Rightarrow> Inl (JsError m)
      | Resolves res \<Rightarrow>
          if \<not> ok res then
            Inl (JsError (''qsearch API error: '' @ show_nat (status res) @ '' '' @ text_body res))
          else (case json res of
                  None \<Rightarrow> Inl (JsError ''Unexpected token in JSON'')
                | Some data \<Rightarrow> Inr (data\<lparr>res_mode := Some Local\<rparr>)))"

text \<open>
  \<^verbatim>\<open>qsearchHybrid(query, limit, alpha = 0.5, learn = true)\<close>: an omitted
  argument is \<open>None\<close> and takes the default of the parameter list.
\<close>

definition qsearchHybrid_request ::
  "string \<Rightarrow> number \<Rightarrow> number option \<Rightarrow> bool option \<Rightarrow> http_request" where
  "qsearchHybrid_request q l alpha_arg learn_arg =
     (let a = (case alpha_arg of None \<Rightarrow> 0.5 | Some v \<Rightarrow> v);
          learn = (case learn_arg of None \<Rightarrow> True | Some b \<Rightarrow> b)
      in \<lparr>path = ''/hybrid'', http_method = ''POST'', with_credentials = False,
          body = HybridBody q l a learn\<rparr>)"

definition qsearchHybrid_result :: "SearchResponse fetch_result \<Rightarrow> js_error + SearchResponse" where
  "qsearchHybrid_result fr =
     (case fr of
        Rejects m \<Rightarrow> Inl (JsError m)
      | Resolves res \<Rightarrow>
          if \<not> ok res then
            Inl (JsError (''qsearch hybrid API error: '' @ show_nat (status res) @ '' '' @ text_body res))
          else (case json res of
                  None \<Rightarrow> Inl (JsError ''Unexpected token in JSON'')
                | Some data \<Rightarrow> Inr data))"

section \<open>The search view (ui/App.tsx)\<close>

text \<open>
  The state hooks of \<^verbatim>\<open>App\<close> that the search path reads or writes.
  \<open>error\<close>, \<open>cacheHit\<close> and \<open>currentMode\<close> are \<open>None\<close> for \<^verbatim>\<open>null\<close>.
\<close>

record app_state =
  query :: string
  limit :: number
  loading :: bool
  error :: "string option"
  cacheHit :: "bool option"
  results :: "SearchResult list"
  searchMode :: SearchMode
  alpha :: number
  currentMode :: "SearchMode option"

definition initial_app :: app_state where
  "initial_app =
     \<lparr>query = [], limit = 10, loading = False, error = None, cacheHit = None,
      results = [], searchMode = Hybrid, alpha = 0.5, currentMode = None\<rparr>"

text \<open>
  \<^verbatim>\<open>onSearch\<close> is an async function and a closure of one render: it reads
  \<open>searchMode\<close>, \<open>query\<close>, \<open>limit\<close> and \<open>alpha\<close> from the render that created
  it (the snapshot \<open>snap\<close>), while every \<^verbatim>\<open>setX\<close> call writes the live state.
  It runs in two pieces. \<open>onSearch_begin\<close> is the part up to the
  \<^verbatim>\<open>await\<close>: it resets the visible state and sends one request.
  \<open>onSearch_resume\<close> is the continuation, run when the fetch of that call has
  settled, on whatever the live state is by then: the \<^verbatim>\<open>try\<close> branch of the
  mode the call was made in, the \<^verbatim>\<open>catch\<close> and the \<^verbatim>\<open>finally\<close>. The source
  keeps no request identity: nothing in the continuation compares the call
  with a later one.
\<close>

definition onSearch_begin :: "app_state \<Rightarrow> app_state \<Rightarrow> app_state \<times> http_request" where
  "onSearch_begin snap st =
     (st\<lparr>error := None, loading := True, results := [], cacheHit := None,
         currentMode := None\<rparr>,
      if searchMode snap = Hybrid
      then qsearchHybrid_request (query snap) (limit snap) (Some (alpha snap)) (Some True)
      else qsearchSearch_request (query snap) (limit snap))"

definition onSearch_resume ::
  "app_state \<Rightarrow> SearchResponse fetch_result \<Rightarrow> app_state \<Rightarrow> app_state" where
  "onSearch_resume snap fr st =
     (if searchMode snap = Hybrid then
        (case qsearchHybrid_result fr of
           Inr res \<Rightarrow>
             st\<lparr>results := (case res_results res of None \<Rightarrow> [] | Some rs \<Rightarrow> rs),
                currentMode := Some Hybrid, loading := False\<rparr>
         | Inl err \<Rightarrow> st\<lparr>error := Some (message err), loading := False\<rparr>)
      else
        (case qsearchSearch_result fr of
           Inr res \<Rightarrow>
             st\<lparr>results := (case res_results res of None \<Rightarrow> [] | Some rs \<Rightarrow> rs),
                cacheHit := Some (truthy (cache_hit res)),
                currentMode := Some Local, loading := False\<rparr>
         | Inl err \<Rightarrow> st\<lparr>error := Some (message err), loading := False\<rparr>))"

text \<open>
  What the view shows of the outcome. The status line is the conditional of
  the render: the error if there is one (an empty message is falsy), nothing
  while \<open>currentMode\<close> is null, the hybrid tag with the \<^emph>\<open>current\<close> value of the
  \<open>alpha\<close> hook, or the local tag with the cache flag when that is not null.
\<close>

datatype status_line =
    ErrorLine string
  | BlankLine
  | HybridLine number
  | LocalLine "bool option"

definition status_view :: "app_state \<Rightarrow> status_line" where
  "status_view st =
     (case error st of
        Some e \<Rightarrow>
          if e \<noteq> [] then ErrorLine e
          else (case currentMode st of
                  None \<Rightarrow> BlankLine
                | Some Hybrid \<Rightarrow> HybridLine (alpha st)
                | Some Local \<Rightarrow> LocalLine (cacheHit st))
      | None \<Rightarrow>
          (case currentMode st of
             None \<Rightarrow> BlankLine
           | Some Hybrid \<Rightarrow> HybridLine (alpha st)
           | Some Local \<Rightarrow> LocalLine (cacheHit st)))"

text \<open>
  The score badges of one result card. \<^verbatim>\<open>Number(x || 0)\<close> reads an absent
  (or zero) score as the number 0; the numbers are shown through
  \<^verbatim>\<open>toFixed\<close>, which is not modelled.
\<close>

definition or_zero :: "number option \<Rightarrow> number" where
  "or_zero x = (case x of None \<Rightarrow> 0 | Some v \<Rightarrow> if v \<noteq> 0 then v else 0)"

datatype score_badges =
    HybridBadges "number option" number number
  | LocalBadge number

definition score_view :: "SearchMode option \<Rightarrow> SearchResult \<Rightarrow> score_badges" where
  "score_view cm r =
     (if cm = Some Hybrid
      then HybridBadges (serper_position r) (or_zero (basin_distance r)) (or_zero (hybrid_score r))
      else LocalBadge (or_zero (distance r)))"




text \<open>
  The view as an event system. React re-renders after every handler, so the
  handler of an event is the closure of the state as it is when the event
  arrives. \<open>onSearch\<close> has one trigger, the submission of the search form
  (\<^verbatim>\<open><form onSubmit={onSearch}>\<close>). The submit button of that form is
  \<^verbatim>\<open>disabled={loading}\<close> and its query input is \<^verbatim>\<open>required\<close>, so the
  browser submits nothing while a search is loading or while the query is
  empty: \<open>Submit\<close> is then refused and changes nothing. Otherwise \<open>Submit\<close>
  starts \<open>onSearch\<close> with the current state as its snapshot, records the
  request sent and keeps the continuation pending under the number of the
  call. \<open>Arrive n fr\<close> settles the fetch of call \<open>n\<close> with \<open>fr\<close> and runs its
  continuation (an \<open>Arrive\<close> for a call that is not pending does nothing). The
  other events are the form controls. The range attributes of the limit input
  could only refuse further submissions and are left out.
\<close>

record world =
  app :: app_state
  pending :: "(nat \<times> app_state) list"
  sent :: "http_request list"

datatype event =
    SetQuery string
  | SetLimit number
  | SetSearchMode SearchMode
  | SetAlpha number
  | Submit
  | Arrive nat "SearchResponse fetch_result"

fun step :: "world \<Rightarrow> event \<Rightarrow> world" where
  "step w (SetQuery q) = w\<lparr>app := (app w)\<lparr>query := q\<rparr>\<rparr>"
| "step w (SetLimit l) = w\<lparr>app := (app w)\<lparr>limit := l\<rparr>\<rparr>"
| "step w (SetSearchMode m) = w\<lparr>app := (app w)\<lparr>searchMode := m\<rparr>\<rparr>"
| "step w (SetAlpha a) = w\<lparr>app := (app w)\<lparr>alpha := a\<rparr>\<rparr>"
| "step w Submit =
     (if loading (app w) \<or> query (app w) = [] then w
      else let (st, req) = onSearch_begin (app w) (app w)
           in \<lparr>app = st, pending = pending w @ [(length (sent w), app w)],
               sent = sent w @ [req]\<rparr>)"
| "step w (Arrive n fr) =
     (case map_of (pending w) n of
        None \<Rightarrow> w
      | Some snap \<Rightarrow>
          w\<lparr>app := onSearch_resume snap fr (app w),
            pending := filter (\<lambda>p. fst p \<noteq> n) (pending w)\<rparr>)"

definition run :: "world \<Rightarrow> event list \<Rightarrow> world" where
  "run w es = foldl step w es"

definition initial_world :: world where
  "initial_world = \<lparr>app = initial_app, pending = [], sent = []\<rparr>"

text \<open>
  Vocabulary for the statements below: what the awaited call of a pending
  \<open>onSearch\<close> evaluates to (the call is chosen by the mode of its snapshot),
  the list \<^verbatim>\<open>res.results || []\<close>, and what a rendered status line or
  badge group shows.
\<close>

definition awaited :: "app_state \<Rightarrow> SearchResponse fetch_result \<Rightarrow> js_error + SearchResponse" where
  "awaited snap fr =
     (if searchMode snap = Hybrid then qsearchHybrid_result fr else qsearchSearch_result fr)"

definition results_or_empty :: "SearchResponse \<Rightarrow> SearchResult list" where
  "results_or_empty res = (case res_results res of None \<Rightarrow> [] | Some rs \<Rightarrow> rs)"

fun shows_cache :: "status_line \<Rightarrow> bool" where
  "shows_cache (LocalLine (Some b)) = True"
| "shows_cache s = False"

fun shows_blend :: "status_line \<Rightarrow> bool" where
  "shows_blend (HybridLine a) = True"
| "shows_blend s = False"

fun hybrid_badges :: "score_badges \<Rightarrow> bool" where
  "hybrid_badges (HybridBadges p d h) = True"
| "hybrid_badges (LocalBadge d) = False"


text \<open>Sample documents and a sample success response, for the concrete runs.\<close>

definition doc_a :: SearchResult where
  "doc_a = \<lparr>doc_id = Some ''a1'', url = ''https://a.example'', title = ''about a'',
            snippet = ''first'', distance = None, basin_distance = Some 0.25,
            hybrid_score = None, serper_position = Some 1\<rparr>"

definition doc_b :: SearchResult where
  "doc_b = \<lparr>doc_id = Some ''b1'', url = ''https://b.example'', title = ''about b'',
            snippet = ''second'', distance = None, basin_distance = Some 0.5,
            hybrid_score = Some 0.75, serper_position = Some 2\<rparr>"

definition reply :: "string \<Rightarrow> SearchResult list \<Rightarrow> SearchResponse fetch_result" where
  "reply q rs = Resolves \<lparr>status = 200, text_body = [],
      json = Some \<lparr>res_query = q, res_count = 1, cache_hit = JUndefined,
                   res_mode = None, res_alpha = None, res_results = Some rs\<rparr>\<rparr>"

section \<open>The session store (contexts/AuthContext.tsx)\<close>

text \<open>
  The file exists in two variants: the redirect (OAuth) one, whose state has
  the \<open>providers\<close> hook, and the password one, which has none and starts with
  \<open>authEnabled = true\<close>. The \<^verbatim>\<open>User\<close> payload is opaque (\<open>'u\<close>): it is only
  stored as a unit. \<open>auth_loading\<close> is the \<^verbatim>\<open>loading\<close> hook of the provider
  (\<^verbatim>\<open>App\<close> reads it under the name \<^verbatim>\<open>authLoading\<close>).
\<close>

record AuthProviders =
  google :: bool
  microsoft :: bool

record 'u auth_state =
  user :: "'u option"
  auth_loading :: bool
  authEnabled :: bool

record 'u oauth_state = "'u auth_state" +
  providers :: AuthProviders

definition authenticated :: "('u, 'x) auth_state_scheme \<Rightarrow> bool" where
  "authenticated st = (user st \<noteq> None)"

definition initial_oauth :: "'u oauth_state" where
  "initial_oauth =
     \<lparr>user = None, auth_loading = True, authEnabled = False,
      providers = \<lparr>google = False, microsoft = False\<rparr>\<rparr>"

definition initial_password :: "'u auth_state" where
  "initial_password = \<lparr>user = None, auth_loading = True, authEnabled = True\<rparr>"

text \<open>
  The JSON bodies of the two auth endpoints. \<open>pd_enabled\<close> and
  \<open>md_authenticated\<close> are raw values, since the code tests their truthiness;
  \<open>pd_providers\<close> and \<open>md_user\<close> are \<open>None\<close> when the field is absent, null
  or otherwise falsy.
\<close>

record providers_data =
  pd_enabled :: jsval
  pd_providers :: "AuthProviders option"

record 'u me_data =
  md_authenticated :: jsval
  md_user :: "'u option"

definition providers_request :: http_request where
  "providers_request =
     \<lparr>path = ''/api/v1/auth/providers'', http_method = ''GET'', with_credentials = True,
      body = NoBody\<rparr>"

definition me_request :: http_request where
  "me_request =
     \<lparr>path = ''/api/v1/auth/me'', http_method = ''GET'', with_credentials = True,
      body = NoBody\<rparr>"

definition logout_request :: http_request where
  "logout_request =
     \<lparr>path = ''/api/v1/auth/logout'', http_method = ''POST'', with_credentials = True,
      body = NoBody\<rparr>"

text \<open>
  \<^verbatim>\<open>refreshUser\<close> of the redirect variant (lines 51-85). It is a closure of one
  render: the \<^verbatim>\<open>authEnabled\<close> it tests is the constant of that render (\<open>ae\<close>),
  which \<^verbatim>\<open>setAuthEnabled\<close> does not change; the setters write the live state
  \<open>st\<close>. \<open>pf\<close> and \<open>mf\<close> are what the two fetches settle to. The function
  returns the new state, the requests it issued and the lines it logged with
  \<^verbatim>\<open>console.error\<close>. Inside the \<^verbatim>\<open>try\<close>, a rejected fetch or a body that
  does not parse throws: the state written so far stays, the \<^verbatim>\<open>catch\<close> logs
  and clears the user, and the \<^verbatim>\<open>finally\<close> ends loading. Of
  \<^verbatim>\<open>providersData.enabled || false\<close> the hook keeps the truthiness, which is
  all that its readers test.
\<close>

definition refreshUser_oauth ::
  "bool \<Rightarrow> providers_data fetch_result \<Rightarrow> 'u me_data fetch_result \<Rightarrow> 'u oauth_state \<Rightarrow>
   'u oauth_state \<times> http_request list \<times> string list" where
  "refreshUser_oauth ae pf mf st =
     (let (st1, thrown1) =
            (case pf of
               Rejects m \<Rightarrow> (st, Some (JsError m))
             | Resolves providersRes \<Rightarrow>
                 if ok providersRes then
                   (case json providersRes of
                      None \<Rightarrow> (st, Some (JsError ''Unexpected token in JSON''))
                    | Some providersData \<Rightarrow>
                        (st\<lparr>authEnabled := truthy (pd_enabled providersData),
                            providers :=
                              (case pd_providers providersData of
                                 None \<Rightarrow> \<lparr>google = False, microsoft = False\<rparr>
                               | Some ps \<Rightarrow> ps)\<rparr>,
                         None))
                 else (st, None));
          (st2, reqs, thrown2) =
            (if thrown1 \<noteq> None then (st1, [], thrown1)
             else if ae then
               (case mf of
                  Rejects m \<Rightarrow> (st1, [me_request], Some (JsError m))
                | Resolves meRes \<Rightarrow>
                    if ok meRes then
                      (case json meRes of
                         None \<Rightarrow> (st1, [me_request], Some (JsError ''Unexpected token in JSON''))
                       | Some data \<Rightarrow>
                           if truthy (md_authenticated data) \<and> md_user data \<noteq> None
                           then (st1\<lparr>user := md_user data\<rparr>, [me_request], None)
                           else (st1\<lparr>user := None\<rparr>, [me_request], None))
                    else (st1, [me_request], None))
             else (st1, [], None));
          (st3, logs) =
            (case thrown2 of
               Some err \<Rightarrow>
                 (st2\<lparr>user := None\<rparr>, [''Failed to check auth status: '' @ message err])
             | None \<Rightarrow> (st2, []))
      in (st3\<lparr>auth_loading := False\<rparr>, providers_request # reqs, logs))"

text \<open>
  The mount effect \<^verbatim>\<open>useEffect(() => { refreshUser(); }, [])\<close> runs the
  \<^verbatim>\<open>refreshUser\<close> of the first render, on the initial state: the
  \<^verbatim>\<open>authEnabled\<close> that closure tests is the initial value of the hook.
\<close>

definition initialize_oauth ::
  "providers_data fetch_result \<Rightarrow> 'u me_data fetch_result \<Rightarrow>
   'u oauth_state \<times> http_request list \<times> string list" where
  "initialize_oauth pf mf =
     refreshUser_oauth (authEnabled (initial_oauth :: 'u oauth_state)) pf mf initial_oauth"

text \<open>\<^verbatim>\<open>refreshUser\<close> of the password variant (lines 164-184): the probe alone.\<close>

definition refreshUser_password ::
  "'u me_data fetch_result \<Rightarrow> 'u auth_state \<Rightarrow>
   'u auth_state \<times> http_request list \<times> string list" where
  "refreshUser_password mf st =
     (let (st2, thrown) =
            (case mf of
               Rejects m \<Rightarrow> (st, Some (JsError m))
             | Resolves meRes \<Rightarrow>
                 if ok meRes then
                   (case json meRes of
                      None \<Rightarrow> (st, Some (JsError ''Unexpected token in JSON''))
                    | Some data \<Rightarrow>
                        if truthy (md_authenticated data) \<and> md_user data \<noteq> None
                        then (st\<lparr>user := md_user data\<rparr>, None)
                        else (st\<lparr>user := None\<rparr>, None))
                 else (st, None));
          (st3, logs) =
            (case thrown of
               Some err \<Rightarrow>
                 (st2\<lparr>user := None\<rparr>, [''Failed to check auth status: '' @ message err])
             | None \<Rightarrow> (st2, []))
      in (st3\<lparr>auth_loading := False\<rparr>, [me_request], logs))"

definition initialize_password ::
  "'u me_data fetch_result \<Rightarrow> 'u auth_state \<times> http_request list \<times> string list" where
  "initialize_password mf = refreshUser_password mf initial_password"

text \<open>
  \<^verbatim>\<open>logout\<close> (lines 98-108 and 228-238, the same text in both variants, hence
  stated on any extension of the state): \<^verbatim>\<open>setUser(null)\<close> follows the awaited
  fetch inside the \<^verbatim>\<open>try\<close>, and the response is not inspected; the
  \<^verbatim>\<open>catch\<close> only logs.
\<close>

definition logout ::
  "'r fetch_result \<Rightarrow> ('u, 'x) auth_state_scheme \<Rightarrow>
   ('u, 'x) auth_state_scheme \<times> http_request list \<times> string list" where
  "logout lf st =
     (case lf of
        Resolves res \<Rightarrow> (st\<lparr>user := None\<rparr>, [logout_request], [])
      | Rejects m \<Rightarrow> (st, [logout_request], [''Logout failed: '' @ m]))"

text \<open>
  Sample backend answers and a signed-in state, for the concrete runs.
\<close>

definition providers_on :: "providers_data fetch_result" where
  "providers_on = Resolves \<lparr>status = 200, text_body = [],
     json = Some \<lparr>pd_enabled = JBool True,
                  pd_providers = Some \<lparr>google = True, microsoft = False\<rparr>\<rparr>\<rparr>"

definition me_signed_in :: "string \<Rightarrow> string me_data fetch_result" where
  "me_signed_in u = Resolves \<lparr>status = 200, text_body = [],
     json = Some \<lparr>md_authenticated = JBool True, md_user = Some u\<rparr>\<rparr>"

definition server_error :: "'a fetch_result" where
  "server_error =
     Resolves \<lparr>status = 500, text_body = ''Internal Server Error'', json = None\<rparr>"

definition signed_in :: "string \<Rightarrow> string auth_state" where
  "signed_in u = \<lparr>user = Some u, auth_loading = False, authEnabled = True\<rparr>"

text \<open>
  The Session a probe leaves behind, in the words of the amended C3: a
  transport failure, an unreadable body, a falsy \<open>authenticated\<close> and a missing
  user all clear it; a non-success status leaves it as it was; a success
  response with \<open>authenticated\<close> and a user installs that user.
\<close>

definition probe_verdict :: "'u option \<Rightarrow> 'u me_data fetch_result \<Rightarrow> 'u option" where
  "probe_verdict before mf =
     (case mf of
        Rejects m \<Rightarrow> None
      | Resolves res \<Rightarrow>
          if ok res then
            (case json res of
               None \<Rightarrow> None
             | Some d \<Rightarrow> if truthy (md_authenticated d) then md_user d else None)
          else before)"

section \<open>The theme provider (contexts/ThemeProvider.tsx, main.tsx)\<close>

datatype ThemeMode = Light | Dark | System

datatype ResolvedTheme = ResolvedLight | ResolvedDark

fun theme_name :: "ThemeMode \<Rightarrow> string" where
  "theme_name Light = ''light''"
| "theme_name Dark = ''dark''"
| "theme_name System = ''system''"

fun class_name :: "ResolvedTheme \<Rightarrow> string" where
  "class_name ResolvedLight = ''light''"
| "class_name ResolvedDark = ''dark''"

text \<open>
  \<^verbatim>\<open>localStorage\<close>. When storage is disabled every access throws a
  SecurityError; a store that is accessible may still refuse a write
  (QuotaExceededError). \<^verbatim>\<open>getItem\<close> of a missing key is \<^verbatim>\<open>null\<close>.
\<close>

record local_storage =
  accessible :: bool
  writable :: bool
  items :: "string \<Rightarrow> string option"

definition getItem :: "local_storage \<Rightarrow> string \<Rightarrow> js_error + string option" where
  "getItem ls k = (if accessible ls then Inr (items ls k) else Inl (JsError ''SecurityError''))"

definition setItem :: "local_storage \<Rightarrow> string \<Rightarrow> string \<Rightarrow> js_error + local_storage" where
  "setItem ls k v =
     (if \<not> accessible ls then Inl (JsError ''SecurityError'')
      else if \<not> writable ls then Inl (JsError ''QuotaExceededError'')
      else Inr (ls\<lparr>items := (items ls)(k \<mapsto> v)\<rparr>))"

text \<open>
  \<^verbatim>\<open>resolveTheme\<close>; the second argument is what
  \<^verbatim>\<open>matchMedia("(prefers-color-scheme: dark)").matches\<close> reads at the call.
\<close>

fun resolveTheme :: "ThemeMode \<Rightarrow> bool \<Rightarrow> ResolvedTheme" where
  "resolveTheme System dark_now = (if dark_now then ResolvedDark else ResolvedLight)"
| "resolveTheme Light dark_now = ResolvedLight"
| "resolveTheme Dark dark_now = ResolvedDark"

text \<open>
  \<^verbatim>\<open>applyThemeClass\<close> on the class list of the root element (a list of
  distinct tokens): remove both theme classes, then add the resolved one.
\<close>

definition classList_remove :: "string list \<Rightarrow> string list \<Rightarrow> string list" where
  "classList_remove tokens cl = filter (\<lambda>c. c \<notin> set tokens) cl"

definition classList_add :: "string \<Rightarrow> string list \<Rightarrow> string list" where
  "classList_add token cl = (if token \<in> set cl then cl else cl @ [token])"

definition applyThemeClass :: "ResolvedTheme \<Rightarrow> string list \<Rightarrow> string list" where
  "applyThemeClass resolved cl =
     classList_add (class_name resolved) (classList_remove [''light'', ''dark''] cl)"

text \<open>
  The state of the provider and of the environment it touches: the two hooks,
  the class list of the root element, the storage, the ambient preference, and
  the \<^verbatim>\<open>change\<close> listeners this provider has on the media query. A handler
  closure is identified by a number, fresh for each run of the subscribing
  effect. \<open>effect_theme\<close> is the dependency \<^verbatim>\<open>[theme]\<close> of the last effect pass
  (\<open>None\<close> before the first) and \<open>cleanup\<close> the cleanup the subscribing effect
  returned (the handler it will remove; \<open>None\<close> when it returned nothing).
\<close>

record theme_state =
  theme :: ThemeMode
  resolvedTheme :: ResolvedTheme
  classList :: "string list"
  storage :: local_storage
  prefers_dark :: bool
  listeners :: "nat list"
  next_handler :: nat
  effect_theme :: "ThemeMode option"
  cleanup :: "nat option"

text \<open>
  The initializer of the \<open>theme\<close> hook (lines 26-30). It runs during the first
  render, outside any \<^verbatim>\<open>try\<close>: an exception of \<^verbatim>\<open>getItem\<close> is an exception
  of the render.
\<close>

definition initial_theme :: "local_storage \<Rightarrow> js_error + ThemeMode" where
  "initial_theme ls =
     (case getItem ls ''theme'' of
        Inl err \<Rightarrow> Inl err
      | Inr saved \<Rightarrow>
          if saved = Some ''light'' then Inr Light
          else if saved = Some ''dark'' then Inr Dark
          else if saved = Some ''system'' then Inr System
          else Inr System)"

text \<open>
  The first effect (lines 36-41): resolve, set the hook, apply the class,
  persist. A failing write is an exception of the effect.
\<close>

definition persist_effect :: "theme_state \<Rightarrow> js_error + theme_state" where
  "persist_effect st =
     (let resolved = resolveTheme (theme st) (prefers_dark st);
          st1 = st\<lparr>resolvedTheme := resolved,
                   classList := applyThemeClass resolved (classList st)\<rparr>
      in case setItem (storage st1) ''theme'' (theme_name (theme st1)) of
           Inl err \<Rightarrow> Inl err
         | Inr ls \<Rightarrow> Inr (st1\<lparr>storage := ls\<rparr>))"

text \<open>
  The second effect (lines 43-53): nothing unless the theme is \<open>system\<close>;
  otherwise add a fresh handler and return the cleanup that removes it.
\<close>

definition subscribe_effect :: "theme_state \<Rightarrow> theme_state" where
  "subscribe_effect st =
     (if theme st \<noteq> System then st\<lparr>cleanup := None\<rparr>
      else st\<lparr>listeners := listeners st @ [next_handler st],
              next_handler := Suc (next_handler st),
              cleanup := Some (next_handler st)\<rparr>)"

definition run_cleanup :: "theme_state \<Rightarrow> theme_state" where
  "run_cleanup st =
     (case cleanup st of
        None \<Rightarrow> st
      | Some h \<Rightarrow> st\<lparr>listeners := filter (\<lambda>l. l \<noteq> h) (listeners st), cleanup := None\<rparr>)"

text \<open>
  The handler the second effect registers: resolve \<open>system\<close> against the
  ambient preference of the moment, set the hook, apply the class.
\<close>

definition handler :: "theme_state \<Rightarrow> theme_state" where
  "handler st =
     (let resolved = resolveTheme System (prefers_dark st)
      in st\<lparr>resolvedTheme := resolved,
            classList := applyThemeClass resolved (classList st)\<rparr>)"

text \<open>
  \<^verbatim>\<open>setTheme\<close> is the setter of the \<open>theme\<close> hook and nothing more: it stores
  the value and schedules a render. The effect pass that React runs after a
  render (\<open>commit\<close>) re-runs the two effects only when their dependency
  \<^verbatim>\<open>[theme]\<close> has changed: first the pending cleanup, then the effects in
  source order.
\<close>

definition setTheme :: "ThemeMode \<Rightarrow> theme_state \<Rightarrow> theme_state" where
  "setTheme p st = st\<lparr>theme := p\<rparr>"

definition commit :: "theme_state \<Rightarrow> js_error + theme_state" where
  "commit st =
     (if effect_theme st = Some (theme st) then Inr st
      else (case persist_effect (run_cleanup st) of
              Inl err \<Rightarrow> Inl err
            | Inr st1 \<Rightarrow> Inr ((subscribe_effect st1)\<lparr>effect_theme := Some (theme st1)\<rparr>)))"

text \<open>
  Mounting the provider in an environment (storage, ambient preference, class
  list of the root element): the first render initializes the hooks, then the
  first effect pass runs.
\<close>

definition ThemeProvider_mount ::
  "local_storage \<Rightarrow> bool \<Rightarrow> string list \<Rightarrow> js_error + theme_state" where
  "ThemeProvider_mount ls dark_now cl =
     (case initial_theme ls of
        Inl err \<Rightarrow> Inl err
      | Inr t \<Rightarrow>
          commit \<lparr>theme = t, resolvedTheme = resolveTheme t dark_now, classList = cl,
                  storage = ls, prefers_dark = dark_now, listeners = [], next_handler = 0,
                  effect_theme = None, cleanup = None\<rparr>)"

text \<open>
  The ambient preference changes to \<open>b\<close>: the media query fires \<^verbatim>\<open>change\<close>
  when its result changes, and every registered handler runs.
\<close>

definition ambient_change :: "bool \<Rightarrow> theme_state \<Rightarrow> theme_state" where
  "ambient_change b st =
     (if b = prefers_dark st then st
      else foldl (\<lambda>s h. handler s) (st\<lparr>prefers_dark := b\<rparr>) (listeners st))"

text \<open>
  The provider as an event system: a preference selected in the view
  (\<^verbatim>\<open>setTheme\<close>, then the render and its effect pass) or a change of the
  ambient preference. An exception of an effect ends the run.
\<close>

datatype theme_event = SelectTheme ThemeMode | AmbientChange bool

fun theme_step :: "theme_state \<Rightarrow> theme_event \<Rightarrow> js_error + theme_state" where
  "theme_step st (SelectTheme p) = commit (setTheme p st)"
| "theme_step st (AmbientChange b) = Inr (ambient_change b st)"

fun theme_run :: "theme_state \<Rightarrow> theme_event list \<Rightarrow> js_error + theme_state" where
  "theme_run st [] = Inr st"
| "theme_run st (e # es) =
     (case theme_step st e of Inl err \<Rightarrow> Inl err | Inr st1 \<Rightarrow> theme_run st1 es)"

text \<open>
  The start-up script of \<^verbatim>\<open>main.tsx\<close> (lines 10-23), which reads the same
  key before React renders, inside \<^verbatim>\<open>try { ... } catch { // ignore }\<close>:
  \<^verbatim>\<open>classList.toggle("dark", resolved === "dark")\<close>.
\<close>

definition apply_saved_theme :: "local_storage \<Rightarrow> bool \<Rightarrow> string list \<Rightarrow> string list" where
  "apply_saved_theme ls dark_now cl =
     (case getItem ls ''theme'' of
        Inl err \<Rightarrow> cl
      | Inr item \<Rightarrow>
          let saved = (case item of None \<Rightarrow> ''system''
                       | Some v \<Rightarrow> if v \<noteq> [] then v else ''system'');
              resolved = (if saved = ''dark'' \<or> saved = ''light'' then saved
                          else if dark_now then ''dark'' else ''light'')
          in if resolved = ''dark'' then classList_add ''dark'' cl
             else classList_remove [''dark''] cl)"

text \<open>
  Vocabulary for the statements below: the mode the root element shows, and
  the state of a provider whose effects are up to date on a working store.
\<close>

definition applied :: "ResolvedTheme \<Rightarrow> string list \<Rightarrow> bool" where
  "applied r cl =
     (case r of
        ResolvedLight \<Rightarrow> ''light'' \<in> set cl \<and> ''dark'' \<notin> set cl
      | ResolvedDark \<Rightarrow> ''dark'' \<in> set cl \<and> ''light'' \<notin> set cl)"

definition settled :: "theme_state \<Rightarrow> bool" where
  "settled st =
     (effect_theme st = Some (theme st)
      \<and> accessible (storage st) \<and> writable (storage st)
      \<and> items (storage st) ''theme'' = Some (theme_name (theme st))
      \<and> resolvedTheme st = resolveTheme (theme st) (prefers_dark st)
      \<and> applied (resolvedTheme st) (classList st)
      \<and> listeners st = (case cleanup st of None \<Rightarrow> [] | Some h \<Rightarrow> [h])
      \<and> (cleanup st \<noteq> None) = (theme st = System))"

text \<open>Sample stores, for the concrete runs.\<close>

definition disabled_storage :: local_storage where
  "disabled_storage = \<lparr>accessible = False, writable = False, items = (\<lambda>k. None)\<rparr>"

definition store_with :: "string \<Rightarrow> local_storage" where
  "store_with v = \<lparr>accessible = True, writable = True, items = [''theme'' \<mapsto> v]\<rparr>"

text \<open>
  Three states of a mounted provider, for the concrete runs: mounted on a
  store holding \<open>light\<close>, mounted on a store holding \<open>system\<close>, and the latter
  after switching to \<open>dark\<close> and back to \<open>system\<close>.
\<close>

definition mounted_light :: theme_state where
  "mounted_light =
     \<lparr>theme = Light, resolvedTheme = ResolvedLight, classList = [''light''],
      storage = store_with ''light'', prefers_dark = False, listeners = [], next_handler = 0,
      effect_theme = Some Light, cleanup = None\<rparr>"

definition mounted_system :: theme_state where
  "mounted_system =
     \<lparr>theme = System, resolvedTheme = ResolvedLight, classList = [''light''],
      storage = store_with ''system'', prefers_dark = False, listeners = [0],
      next_handler = Suc 0, effect_theme = Some System, cleanup = Some 0\<rparr>"

definition resubscribed :: theme_state where
  "resubscribed =
     \<lparr>theme = System, resolvedTheme = ResolvedLight, classList = [''light''],
      storage = store_with ''system'', prefers_dark = False, listeners = [Suc 0],
      next_handler = Suc (Suc 0), effect_theme = Some System, cleanup = Some (Suc 0)\<rparr>"

section \<open>Properties of the API client\<close>

text \<open>
  C10: when \<^verbatim>\<open>qsearchHybrid\<close> is called without a blend weight and without a
  learn flag, the request it sends goes to the hybrid path and its body carries
  the query, the limit, \<open>alpha = 0.5\<close> and \<open>learn = true\<close>.
\<close>

theorem qsearchHybrid_defaults:
  "qsearchHybrid_request q l None None =
     \<lparr>path = ''/hybrid'', http_method = ''POST'', with_credentials = False,
      body = HybridBody q l (1/2) True\<rparr>"
  by (simp add: qsearchHybrid_request_def)

text \<open>
  The error thrown for a failure status carries the status code and the body,
  here for a 500 answered to a local search.
\<close>

lemma qsearchSearch_failure_status_message:
  "qsearchSearch_result server_error
     = Inl (JsError ''qsearch API error: 500 Internal Server Error'')"
  by (simp add: qsearchSearch_result_def server_error_def ok_def show_nat.simps digit_char_def)

section \<open>Properties of the search view\<close>

lemmas search_eval =
  run_def initial_world_def initial_app_def onSearch_begin_def onSearch_resume_def
  qsearchHybrid_request_def qsearchSearch_request_def qsearchHybrid_result_def
  qsearchSearch_result_def reply_def ok_def










text \<open>
  The event list of two searches with the second submitted while the first is
  loading: the second submission is refused, one request is sent, and the
  list shown is the answer to it.
\<close>

lemma second_submission_while_loading_is_refused:
  "sent (run initial_world
      [SetQuery ''a'', Submit, SetQuery ''b'', Submit,
       Arrive 1 (reply ''b'' [doc_b]), Arrive 0 (reply ''a'' [doc_a])])
     = [qsearchHybrid_request ''a'' 10 (Some 0.5) (Some True)]
   \<and> results (app (run initial_world
      [SetQuery ''a'', Submit, SetQuery ''b'', Submit,
       Arrive 1 (reply ''b'' [doc_b]), Arrive 0 (reply ''a'' [doc_a])])) = [doc_a]"
  by (simp add: search_eval)

text \<open>
  C8, as stated, fails on the tag: a hybrid search is sent with blend weight
  0.3 and its response arrives; the slider is then moved to 0.8. The request
  body carried \<open>alpha = 0.3\<close>, and the status line of the outcome now shows 0.8.
\<close>

theorem hybrid_tag_follows_slider:
  "status_view (app (run initial_world
      [SetAlpha 0.3, SetQuery ''q'', Submit, Arrive 0 (reply ''q'' [doc_a]), SetAlpha 0.8]))
     = HybridLine 0.8
   \<and> map body (sent (run initial_world
      [SetAlpha 0.3, SetQuery ''q'', Submit, Arrive 0 (reply ''q'' [doc_a]), SetAlpha 0.8]))
     = [HybridBody ''q'' 10 0.3 True]"
  by (simp add: search_eval status_view_def)

text \<open>
  C8, amended: a hybrid-mode search sends to the hybrid path a body with the
  query text, the result-count bound, \<open>alpha\<close> equal to the blend weight of the
  submitting render and \<open>learn = true\<close>; once its response has been applied
  (and no error is shown) the status line is the hybrid tag with the value the
  blend-weight control has at that moment; and a result without
  \<open>hybrid_score\<close> shows the number 0 as its combined score.
\<close>

theorem hybrid_request_and_live_tag:
  assumes "searchMode snap = Hybrid"
  shows "snd (onSearch_begin snap st) =
           \<lparr>path = ''/hybrid'', http_method = ''POST'', with_credentials = False,
            body = HybridBody (query snap) (limit snap) (alpha snap) True\<rparr>
       \<and> (qsearchHybrid_result fr = Inr res \<and> error cur = None \<longrightarrow>
            status_view (onSearch_resume snap fr cur) = HybridLine (alpha cur))
       \<and> (hybrid_score r = None \<longrightarrow>
            score_view (Some Hybrid) r =
              HybridBadges (serper_position r) (or_zero (basin_distance r)) 0)"
  using assms
  by (simp add: onSearch_begin_def qsearchHybrid_request_def onSearch_resume_def
        status_view_def score_view_def or_zero_def)

theorem hybrid_request_and_live_tag_witness:
  "snd (onSearch_begin (initial_app\<lparr>query := ''q'', alpha := 0.3\<rparr>) initial_app) =
     \<lparr>path = ''/hybrid'', http_method = ''POST'', with_credentials = False,
      body = HybridBody ''q'' 10 0.3 True\<rparr>
   \<and> status_view (onSearch_resume (initial_app\<lparr>query := ''q'', alpha := 0.3\<rparr>)
        (reply ''q'' [doc_a]) (initial_app\<lparr>alpha := 0.3\<rparr>)) = HybridLine 0.3
   \<and> score_view (Some Hybrid) doc_a = HybridBadges (Some 1) 0.25 0"
proof -
  have h: "searchMode (initial_app\<lparr>query := ''q'', alpha := 0.3\<rparr>) = Hybrid"
    by (simp add: initial_app_def)
  have r: "qsearchHybrid_result (reply ''q'' [doc_a])
      = Inr \<lparr>res_query = ''q'', res_count = 1, cache_hit = JUndefined, res_mode = None,
             res_alpha = None, res_results = Some [doc_a]\<rparr>"
    by (simp add: search_eval)
  have e: "error (initial_app\<lparr>alpha := 0.3\<rparr>) = None"
    by (simp add: initial_app_def)
  have d: "hybrid_score doc_a = None"
    by (simp add: doc_a_def)
  show ?thesis
    using hybrid_request_and_live_tag [OF h, of initial_app "reply ''q'' [doc_a]" _
        "initial_app\<lparr>alpha := 0.3\<rparr>" doc_a] r e d
    by (simp add: initial_app_def doc_a_def or_zero_def)
qed

text \<open>
  C9: for every search that completes with a success response, whatever the
  live state it is applied to: when it was made in hybrid mode the status line
  shows no cache flag and the badges of every card are the hybrid ones (and,
  when the call ran from its own reset, the cache flag of the state is null);
  when it was made in local mode the status line shows no blend weight and the
  badges are the local one; and the result list is the one of that response.
\<close>

theorem provenance_never_mixes:
  assumes "awaited snap fr = Inr res"
  shows "(searchMode snap = Hybrid \<longrightarrow>
            \<not> shows_cache (status_view (onSearch_resume snap fr cur))
          \<and> cacheHit (onSearch_resume snap fr (fst (onSearch_begin snap st))) = None
          \<and> hybrid_badges (score_view (currentMode (onSearch_resume snap fr cur)) r))
       \<and> (searchMode snap = Local \<longrightarrow>
            \<not> shows_blend (status_view (onSearch_resume snap fr cur))
          \<and> \<not> hybrid_badges (score_view (currentMode (onSearch_resume snap fr cur)) r))
       \<and> results (onSearch_resume snap fr cur) = results_or_empty res"
  using assms
  by (cases "searchMode snap")
     (auto simp: awaited_def onSearch_begin_def onSearch_resume_def status_view_def
        score_view_def results_or_empty_def split: option.splits)

theorem provenance_never_mixes_witness:
  "\<not> shows_cache (status_view (onSearch_resume initial_app (reply ''q'' [doc_b])
        (initial_app\<lparr>cacheHit := Some True\<rparr>)))
   \<and> cacheHit (onSearch_resume initial_app (reply ''q'' [doc_b])
        (fst (onSearch_begin initial_app (initial_app\<lparr>cacheHit := Some True\<rparr>)))) = None
   \<and> \<not> shows_blend (status_view (onSearch_resume (initial_app\<lparr>searchMode := Local\<rparr>)
        (reply ''q'' [doc_b]) initial_app))
   \<and> results (onSearch_resume initial_app (reply ''q'' [doc_b])
        (initial_app\<lparr>cacheHit := Some True\<rparr>)) = [doc_b]"
proof -
  have h: "awaited initial_app (reply ''q'' [doc_b])
      = Inr \<lparr>res_query = ''q'', res_count = 1, cache_hit = JUndefined, res_mode = None,
             res_alpha = None, res_results = Some [doc_b]\<rparr>"
    by (simp add: awaited_def search_eval)
  have l: "awaited (initial_app\<lparr>searchMode := Local\<rparr>) (reply ''q'' [doc_b])
      = Inr \<lparr>res_query = ''q'', res_count = 1, cache_hit = JUndefined, res_mode = Some Local,
             res_alpha = None, res_results = Some [doc_b]\<rparr>"
    by (simp add: awaited_def search_eval)
  have m: "searchMode initial_app = Hybrid"
    "searchMode (initial_app\<lparr>searchMode := Local\<rparr>) = Local"
    by (simp_all add: initial_app_def)
  show ?thesis
    using provenance_never_mixes [OF h, of "initial_app\<lparr>cacheHit := Some True\<rparr>"
        "initial_app\<lparr>cacheHit := Some True\<rparr>" doc_b]
      provenance_never_mixes [OF l, of initial_app initial_app doc_b] m
    by (simp add: results_or_empty_def)
qed

section \<open>Properties of the session store\<close>

text \<open>
  C2, as stated, fails: alice is signed in and the logout request fails at the
  transport level. The user is still there after \<^verbatim>\<open>logout\<close> has completed.
\<close>

theorem logout_transport_failure_keeps_user:
  "user (fst (logout (Rejects ''Failed to fetch'' :: unit fetch_result) (signed_in ''alice'')))
     = Some ''alice''"
  by (simp add: logout_def signed_in_def)

text \<open>
  C2, amended: \<^verbatim>\<open>logout\<close> always sends the one logout request; when the
  backend answers, with a success or a failure status alike, the user is
  cleared; when the call fails at the transport level the failure is logged
  and the state is left exactly as it was.
\<close>

theorem logout_clears_on_any_response:
  "user (fst (logout (Resolves res) st)) = None
   \<and> fst (logout (Rejects m) st) = st
   \<and> snd (snd (logout (Rejects m) st)) = [''Logout failed: '' @ m]
   \<and> fst (snd (logout lf st)) = [logout_request]"
  by (cases lf) (simp_all add: logout_def)

lemma refreshUser_password_user:
  "user (fst (refreshUser_password mf st)) = probe_verdict (user st) mf
   \<and> \<not> auth_loading (fst (refreshUser_password mf st))"
  by (cases mf)
     (auto simp: refreshUser_password_def probe_verdict_def Let_def split: option.splits)

lemma refreshUser_oauth_user:
  "me_request \<in> set (fst (snd (refreshUser_oauth ae pf mf st))) \<Longrightarrow>
   user (fst (refreshUser_oauth ae pf mf st)) = probe_verdict (user st) mf
   \<and> \<not> auth_loading (fst (refreshUser_oauth ae pf mf st))"
  by (cases mf; cases pf)
     (auto simp: refreshUser_oauth_def probe_verdict_def Let_def providers_request_def
        me_request_def split: option.splits if_splits)

lemma probe_verdict_cases:
  "probe_verdict before (Rejects m) = None"
  "\<not> ok res \<Longrightarrow> probe_verdict before (Resolves res) = before"
  "ok res \<Longrightarrow> json res = None \<Longrightarrow> probe_verdict before (Resolves res) = None"
  "ok res \<Longrightarrow> json res = Some d \<Longrightarrow> \<not> truthy (md_authenticated d) \<Longrightarrow>
     probe_verdict before (Resolves res) = None"
  "ok res \<Longrightarrow> json res = Some d \<Longrightarrow> truthy (md_authenticated d) \<Longrightarrow>
     probe_verdict before (Resolves res) = md_user d"
  by (simp_all add: probe_verdict_def)

text \<open>
  C3, as stated, fails: alice is signed in and a probe is answered with status
  500. The Session is not cleared; the store stays authenticated.
\<close>

theorem probe_failure_status_keeps_user:
  "user (fst (refreshUser_password server_error (signed_in ''alice''))) = Some ''alice''"
  by (simp add: refreshUser_password_def server_error_def signed_in_def ok_def)

text \<open>
  C3, amended: after a session probe the Session is what \<open>probe_verdict\<close>
  says, in the password variant and, whenever the probe is issued, in the
  redirect variant: cleared by a transport failure, an unreadable body or a
  body without a truthy \<open>authenticated\<close> and a user; left as it was by a
  non-success status; equal to the payload on a success response with
  \<open>authenticated\<close> and a user. Loading has ended in every case, and the probe
  of initialization, which starts without a Session, ends anonymous unless the
  response installs a user.
\<close>

theorem probe_outcomes:
  "user (fst (refreshUser_password mf st)) = probe_verdict (user st) mf
   \<and> \<not> auth_loading (fst (refreshUser_password mf st))
   \<and> (me_request \<in> set (fst (snd (refreshUser_oauth ae pf mf ost))) \<longrightarrow>
        user (fst (refreshUser_oauth ae pf mf ost)) = probe_verdict (user ost) mf
        \<and> \<not> auth_loading (fst (refreshUser_oauth ae pf mf ost)))
   \<and> user (fst (initialize_password mf)) = probe_verdict None mf"
  using refreshUser_password_user [of mf st] refreshUser_oauth_user [of ae pf mf ost]
    refreshUser_password_user [of mf initial_password]
  by (simp add: initialize_password_def initial_password_def)

theorem probe_outcomes_witness:
  "me_request \<in> set (fst (snd (refreshUser_oauth True providers_on (me_signed_in ''alice'')
       initial_oauth)))
   \<and> user (fst (refreshUser_oauth True providers_on (me_signed_in ''alice'') initial_oauth))
       = Some ''alice''
   \<and> user (fst (refreshUser_password (me_signed_in ''alice'') initial_password))
       = Some ''alice''
   \<and> user (fst (initialize_password (server_error :: string me_data fetch_result))) = None"
proof -
  have h: "me_request \<in> set (fst (snd (refreshUser_oauth True providers_on
      (me_signed_in ''alice'') initial_oauth)))"
    by (simp add: refreshUser_oauth_def providers_on_def me_signed_in_def ok_def)
  have v: "probe_verdict None (me_signed_in ''alice'') = Some ''alice''"
    "probe_verdict None (server_error :: string me_data fetch_result) = None"
    by (simp_all add: probe_verdict_def me_signed_in_def server_error_def ok_def)
  have u: "user (initial_oauth :: string oauth_state) = None"
    "user (initial_password :: string auth_state) = None"
    by (simp_all add: initial_oauth_def initial_password_def)
  show ?thesis
    using probe_outcomes [of "me_signed_in ''alice''" initial_password True providers_on
        initial_oauth]
      probe_outcomes [of "server_error :: string me_data fetch_result" initial_password True
        providers_on initial_oauth] h v u
    by simp
qed

text \<open>
  C4 against the redirect variant: the capabilities endpoint reports an
  enabled integration and the session endpoint would report alice as signed
  in. Initialization fetches the capabilities, records \<open>authEnabled = true\<close>,
  issues no session probe and settles anonymous with loading ended: the
  \<^verbatim>\<open>authEnabled\<close> tested after \<^verbatim>\<open>setAuthEnabled\<close> is still the constant of the
  first render.
\<close>

theorem initialize_oauth_skips_probe:
  "initialize_oauth providers_on (me_signed_in ''alice'')
     = (\<lparr>user = None, auth_loading = False, authEnabled = True,
         providers = \<lparr>google = True, microsoft = False\<rparr>\<rparr>, [providers_request], [])"
  by (simp add: initialize_oauth_def refreshUser_oauth_def initial_oauth_def providers_on_def
        ok_def)

text \<open>
  The same for every answer of the two endpoints: initialization of the
  redirect variant sends the capabilities request and nothing else, and ends
  anonymous and not loading. The password variant, which fetches no
  capabilities, sends exactly the one probe.
\<close>

lemma initialize_password_probes_once:
  "fst (snd (initialize_password mf)) = [me_request]
   \<and> \<not> auth_loading (fst (initialize_password mf))"
  by (cases mf)
     (auto simp: initialize_password_def refreshUser_password_def Let_def split: option.splits)

lemma initialize_oauth_never_probes:
  "fst (snd (initialize_oauth pf mf)) = [providers_request]
   \<and> user (fst (initialize_oauth pf mf)) = None
   \<and> \<not> auth_loading (fst (initialize_oauth pf mf))"
  by (cases pf)
     (auto simp: initialize_oauth_def refreshUser_oauth_def initial_oauth_def Let_def
        split: option.splits)

section \<open>Properties of the theme provider\<close>

lemmas theme_eval =
  ThemeProvider_mount_def initial_theme_def getItem_def setItem_def commit_def
  persist_effect_def subscribe_effect_def run_cleanup_def setTheme_def handler_def
  ambient_change_def applyThemeClass_def classList_add_def classList_remove_def
  store_with_def disabled_storage_def Let_def

lemma applied_applyThemeClass: "applied r (applyThemeClass r cl)"
  by (cases r) (simp_all add: applied_def applyThemeClass_def classList_add_def classList_remove_def)

lemma persist_effect_ok:
  "accessible (storage st) \<Longrightarrow> writable (storage st) \<Longrightarrow>
   persist_effect st =
     Inr (st\<lparr>resolvedTheme := resolveTheme (theme st) (prefers_dark st),
            classList := applyThemeClass (resolveTheme (theme st) (prefers_dark st)) (classList st),
            storage := (storage st)\<lparr>items := (items (storage st))(''theme'' \<mapsto> theme_name (theme st))\<rparr>\<rparr>)"
  by (simp add: persist_effect_def setItem_def Let_def)

lemma run_cleanup_rest:
  "theme (run_cleanup st) = theme st \<and> storage (run_cleanup st) = storage st
   \<and> prefers_dark (run_cleanup st) = prefers_dark st \<and> classList (run_cleanup st) = classList st
   \<and> cleanup (run_cleanup st) = None"
  by (simp add: run_cleanup_def split: option.splits)

lemma commit_fresh:
  assumes "accessible (storage st)" "writable (storage st)" "effect_theme st \<noteq> Some (theme st)"
    and "listeners (run_cleanup st) = []"
  shows "\<exists>st'. commit st = Inr st' \<and> settled st' \<and> theme st' = theme st
           \<and> prefers_dark st' = prefers_dark st"
proof -
  let ?c = "run_cleanup st"
  have acc: "accessible (storage ?c)" "writable (storage ?c)"
    using assms(1,2) run_cleanup_rest [of st] by simp_all
  note pe = persist_effect_ok [OF acc]
  have c: "commit st = (case persist_effect ?c of
              Inl err \<Rightarrow> Inl err
            | Inr st1 \<Rightarrow> Inr ((subscribe_effect st1)\<lparr>effect_theme := Some (theme st1)\<rparr>))"
    using assms(3) by (simp add: commit_def)
  show ?thesis
    unfolding c pe
    using assms(1,2,4) run_cleanup_rest [of st] applied_applyThemeClass
    by (cases "theme st") (simp_all add: subscribe_effect_def settled_def)
qed

lemma select_settled:
  assumes "settled st"
  shows "\<exists>st'. commit (setTheme p st) = Inr st' \<and> settled st' \<and> theme st' = p
           \<and> prefers_dark st' = prefers_dark st"
proof (cases "p = theme st")
  case True
  then have "setTheme p st = st" by (simp add: setTheme_def)
  moreover have "commit st = Inr st" using assms by (simp add: commit_def settled_def)
  ultimately show ?thesis using assms True by simp
next
  case False
  let ?s = "setTheme p st"
  have a: "accessible (storage ?s)" "writable (storage ?s)"
    using assms by (simp_all add: settled_def setTheme_def)
  have e: "effect_theme ?s \<noteq> Some (theme ?s)"
    using assms False by (auto simp: settled_def setTheme_def)
  have l: "listeners (run_cleanup ?s) = []"
    using assms by (auto simp: settled_def setTheme_def run_cleanup_def split: option.splits)
  from commit_fresh [OF a e l] show ?thesis by (simp add: setTheme_def)
qed

lemma ambient_change_system:
  assumes "settled st" "theme st = System"
  shows "ambient_change b st =
           (if b = prefers_dark st then st else handler (st\<lparr>prefers_dark := b\<rparr>))"
proof -
  from assms obtain h where "listeners st = [h]"
    by (auto simp: settled_def)
  then show ?thesis by (simp add: ambient_change_def)
qed

lemma ambient_change_fixed:
  assumes "settled st" "theme st \<noteq> System"
  shows "ambient_change b st = (if b = prefers_dark st then st else st\<lparr>prefers_dark := b\<rparr>)"
proof -
  from assms have "listeners st = []"
    by (auto simp: settled_def)
  then show ?thesis by (simp add: ambient_change_def)
qed

lemma ambient_settled:
  assumes "settled st"
  shows "settled (ambient_change b st) \<and> theme (ambient_change b st) = theme st
         \<and> prefers_dark (ambient_change b st) = b"
proof (cases "theme st = System")
  case True
  show ?thesis
    unfolding ambient_change_system [OF assms True]
    using assms True applied_applyThemeClass
    by (auto simp: handler_def settled_def Let_def)
next
  case False
  show ?thesis
    unfolding ambient_change_fixed [OF assms False]
    using assms False
    by (cases "theme st") (auto simp: settled_def)
qed

lemma mount_settled:
  assumes "ThemeProvider_mount ls d cl = Inr st0"
  shows "settled st0"
proof -
  have acc: "accessible ls"
    using assms by (auto simp: ThemeProvider_mount_def initial_theme_def getItem_def split: if_splits)
  then have "\<exists>t. initial_theme ls = Inr t"
    by (simp add: initial_theme_def getItem_def)
  then obtain t where t: "initial_theme ls = Inr t" ..
  let ?s = "\<lparr>theme = t, resolvedTheme = resolveTheme t d, classList = cl,
                  storage = ls, prefers_dark = d, listeners = [], next_handler = 0,
                  effect_theme = None, cleanup = None\<rparr>"
  have c: "commit ?s = Inr st0" using assms t by (simp add: ThemeProvider_mount_def)
  have w: "writable ls"
    using c acc by (auto simp: commit_def persist_effect_def run_cleanup_def setItem_def Let_def split: if_splits)
  have "\<exists>st'. commit ?s = Inr st' \<and> settled st' \<and> theme st' = theme ?s
           \<and> prefers_dark st' = prefers_dark ?s"
    by (rule commit_fresh) (simp_all add: acc w run_cleanup_def)
  with c show ?thesis by auto
qed

lemma run_settled:
  "settled st \<Longrightarrow> \<exists>st'. theme_run st evs = Inr st' \<and> settled st'"
proof (induction evs arbitrary: st)
  case Nil
  then show ?case by simp
next
  case (Cons e evs)
  show ?case
  proof (cases e)
    case (SelectTheme p)
    from select_settled [OF Cons.prems, of p] obtain s1
      where "commit (setTheme p st) = Inr s1" "settled s1" by blast
    with Cons.IH [of s1] SelectTheme show ?thesis by simp
  next
    case (AmbientChange b)
    with Cons.IH [of "ambient_change b st"] ambient_settled [OF Cons.prems, of b]
    show ?thesis by simp
  qed
qed

lemma mount_light: "ThemeProvider_mount (store_with ''light'') False [] = Inr mounted_light"
  by (simp add: theme_eval mounted_light_def)

lemma mount_system: "ThemeProvider_mount (store_with ''system'') False [] = Inr mounted_system"
  by (simp add: theme_eval mounted_system_def)

lemma run_resubscribed:
  "theme_run mounted_system [SelectTheme Dark, SelectTheme System] = Inr resubscribed"
  by (simp add: theme_eval mounted_system_def resubscribed_def)

text \<open>
  C5, as stated, fails: the provider is mounted on the stored preference
  \<open>light\<close>; right after \<^verbatim>\<open>setTheme("dark")\<close> has returned, the root element
  still carries the class \<open>light\<close>, the resolved mode is still light and the
  store still holds \<open>light\<close>.
\<close>

theorem setTheme_alone_applies_nothing:
  "ThemeProvider_mount (store_with ''light'') False [] = Inr mounted_light
   \<and> classList (setTheme Dark mounted_light) = [''light'']
   \<and> resolvedTheme (setTheme Dark mounted_light) = ResolvedLight
   \<and> items (storage (setTheme Dark mounted_light)) ''theme'' = Some ''light''"
  by (simp add: theme_eval mounted_light_def)

text \<open>
  C5, amended: in every state a mounted provider can reach, \<^verbatim>\<open>setTheme(p)\<close>
  by itself leaves the class list, the resolved mode and the store as they
  were; the effect pass of the render it schedules then succeeds, and after it
  the preference is \<open>p\<close>, the store holds \<open>p\<close>, the resolved mode is
  \<open>resolveTheme p\<close> under the ambient preference, and that mode (and not the
  other) is the class of the root element.
\<close>

theorem setTheme_applies_at_commit:
  assumes "ThemeProvider_mount ls d cl = Inr st0" and "theme_run st0 evs = Inr st"
  shows "classList (setTheme p st) = classList st
       \<and> resolvedTheme (setTheme p st) = resolvedTheme st
       \<and> storage (setTheme p st) = storage st
       \<and> (\<exists>st'. commit (setTheme p st) = Inr st'
             \<and> theme st' = p
             \<and> items (storage st') ''theme'' = Some (theme_name p)
             \<and> resolvedTheme st' = resolveTheme p (prefers_dark st)
             \<and> applied (resolveTheme p (prefers_dark st)) (classList st'))"
proof -
  from run_settled [OF mount_settled [OF assms(1)], of evs] assms(2)
  have s: "settled st" by auto
  from select_settled [OF s, of p] obtain st' where
    "commit (setTheme p st) = Inr st'" "settled st'" "theme st' = p"
    "prefers_dark st' = prefers_dark st" by blast
  then show ?thesis by (auto simp: setTheme_def settled_def)
qed

theorem setTheme_applies_at_commit_witness:
  "ThemeProvider_mount (store_with ''light'') False [] = Inr mounted_light
   \<and> theme_run mounted_light [AmbientChange True] = Inr (mounted_light\<lparr>prefers_dark := True\<rparr>)
   \<and> classList (setTheme Dark (mounted_light\<lparr>prefers_dark := True\<rparr>)) = [''light'']
   \<and> (\<exists>st'. commit (setTheme Dark (mounted_light\<lparr>prefers_dark := True\<rparr>)) = Inr st'
         \<and> theme st' = Dark
         \<and> items (storage st') ''theme'' = Some ''dark''
         \<and> resolvedTheme st' = ResolvedDark
         \<and> applied ResolvedDark (classList st'))"
proof -
  have h1: "ThemeProvider_mount (store_with ''light'') False [] = Inr mounted_light"
    by (rule mount_light)
  have h2: "theme_run mounted_light [AmbientChange True]
      = Inr (mounted_light\<lparr>prefers_dark := True\<rparr>)"
    by (simp add: theme_eval mounted_light_def)
  have c: "classList (mounted_light\<lparr>prefers_dark := True\<rparr>) = [''light'']"
    by (simp add: mounted_light_def)
  show ?thesis
    using setTheme_applies_at_commit [OF h1 h2, of Dark] h1 h2 c by simp
qed

text \<open>
  C6 at the failing input: with storage disabled, the initializer of the
  \<open>theme\<close> hook throws, and so does the first render of the provider; the
  start-up script of \<^verbatim>\<open>main.tsx\<close>, which guards the same read, does not and
  leaves the class list alone.
\<close>

theorem initial_theme_throws_when_storage_disabled:
  "initial_theme disabled_storage = Inl (JsError ''SecurityError'')
   \<and> ThemeProvider_mount disabled_storage True [] = Inl (JsError ''SecurityError'')
   \<and> apply_saved_theme disabled_storage True [] = []"
  by (simp add: theme_eval apply_saved_theme_def)

text \<open>
  The part of C6 that holds: on a store that can be read, the initial
  preference is \<open>system\<close> unless the store holds \<open>light\<close> or \<open>dark\<close>.
\<close>

lemma initial_theme_readable:
  "accessible ls \<Longrightarrow>
   initial_theme ls =
     Inr (if items ls ''theme'' = Some ''light'' then Light
          else if items ls ''theme'' = Some ''dark'' then Dark else System)"
  by (simp add: initial_theme_def getItem_def)

text \<open>
  C7: from a mounted provider, every sequence of preference selections and
  ambient changes runs through, and in the state it reaches: there is exactly
  one listener when the preference is \<open>system\<close> and none otherwise; when the
  preference is \<open>system\<close>, an ambient change to \<open>b\<close> by itself makes the
  resolved mode \<open>resolveTheme system\<close> under \<open>b\<close>, makes it the class of the root
  element and keeps the single listener; and selecting any preference \<open>p\<close>
  next leaves one listener if \<open>p\<close> is \<open>system\<close> and none if it is not.
\<close>

theorem ambient_subscription_follows_preference:
  assumes "ThemeProvider_mount ls d cl = Inr st0"
  shows "\<exists>st. theme_run st0 evs = Inr st
        \<and> length (listeners st) = (if theme st = System then 1 else 0)
        \<and> (theme st = System \<longrightarrow>
             resolvedTheme (ambient_change b st) = resolveTheme System b
           \<and> applied (resolveTheme System b) (classList (ambient_change b st))
           \<and> length (listeners (ambient_change b st)) = 1)
        \<and> (\<exists>st'. theme_step st (SelectTheme p) = Inr st' \<and> theme st' = p
             \<and> length (listeners st') = (if p = System then 1 else 0))"
proof -
  have len: "length (listeners s) = (if theme s = System then 1 else 0)" if "settled s" for s
    using that by (auto simp: settled_def split: option.splits)
  from run_settled [OF mount_settled [OF assms], of evs] obtain st
    where r: "theme_run st0 evs = Inr st" and s: "settled st" by blast
  from ambient_settled [OF s, of b]
  have a: "settled (ambient_change b st)" "theme (ambient_change b st) = theme st"
    "prefers_dark (ambient_change b st) = b" by simp_all
  have amb: "theme st = System \<longrightarrow>
             resolvedTheme (ambient_change b st) = resolveTheme System b
           \<and> applied (resolveTheme System b) (classList (ambient_change b st))
           \<and> length (listeners (ambient_change b st)) = 1"
    using a len [OF a(1)] by (auto simp: settled_def)
  from select_settled [OF s, of p] obtain st' where
    c: "commit (setTheme p st) = Inr st'" "settled st'" "theme st' = p" by blast
  have sel: "\<exists>st'. theme_step st (SelectTheme p) = Inr st' \<and> theme st' = p
             \<and> length (listeners st') = (if p = System then 1 else 0)"
    using c len [OF c(2)] by simp
  from r len [OF s] amb sel show ?thesis by blast
qed

theorem ambient_subscription_follows_preference_witness:
  "ThemeProvider_mount (store_with ''system'') False [] = Inr mounted_system
   \<and> theme_run mounted_system [SelectTheme Dark, SelectTheme System] = Inr resubscribed
   \<and> listeners resubscribed = [Suc 0]
   \<and> resolvedTheme (ambient_change True resubscribed) = ResolvedDark
   \<and> applied ResolvedDark (classList (ambient_change True resubscribed))
   \<and> length (listeners (ambient_change True resubscribed)) = 1
   \<and> (\<exists>st'. theme_step resubscribed (SelectTheme Light) = Inr st' \<and> theme st' = Light
         \<and> length (listeners st') = 0)"
proof -
  have h: "ThemeProvider_mount (store_with ''system'') False [] = Inr mounted_system"
    by (rule mount_system)
  have t: "theme resubscribed = System" "listeners resubscribed = [Suc 0]"
    by (simp_all add: resubscribed_def)
  show ?thesis
    using ambient_subscription_follows_preference [OF h,
        of "[SelectTheme Dark, SelectTheme System]" True Light]
      h run_resubscribed t
    by simp
qed

end
